theory Spec2Isabelle
  imports Main "HOL-Library.Word" "HOL-Library.Monad_Syntax" "HOL-Library.Multiset"
begin

section \<open>Memory model\<close>

text \<open>
  The two allocators of the repository keep their bookkeeping inside a static byte array
  \<^verbatim>\<open>memory_pool\<close>: block headers are C structs stored at addresses of the pool and are
  linked through raw pointers. The embedding keeps this shape:

  \<^item> an address is an integer from 0 up to \<open>2 ^ 64 - 1\<close>, \<^verbatim>\<open>NULL\<close> is \<open>0\<close>. Adding a
    header size or a requested size to a pointer, and subtracting a header size from
    one, wrap around at \<open>2 ^ 64\<close>, as the machine does (\<open>ptr_add\<close>, \<open>ptr_sub\<close>). The
    addresses of the array itself are not reduced, an array has them: the address one
    past it, \<^verbatim>\<open>memory_pool + POOL_SIZE\<close>, and the slots \<^verbatim>\<open>memory_pool + i * BLOCK_SIZE\<close> of
    the fixed-size allocator;
  \<^item> \<^verbatim>\<open>size_t\<close> is a 64-bit word, so \<open>+\<close> and \<open>-\<close> on sizes wrap as in C;
  \<^item> memory is a store from addresses to header values: \<open>mem s a\<close> is what reading a
    header through a pointer \<open>a\<close> yields. A store through a pointer changes the value at
    that address only; headers that overlap byte-wise are not related by the model. The
    store covers every address: a header that the code writes past the end of the pool
    is a store like any other;
  \<^item> the address of \<^verbatim>\<open>memory_pool\<close> is chosen by the linker, so it is a component of the
    state that no operation changes;
  \<^item> the error reports that the code prints (\<^verbatim>\<open>Out of memory\<close>, \<^verbatim>\<open>Invalid pointer\<close>,
    \<^verbatim>\<open>Block already free\<close>, the size limit and the configuration messages) are returned
    as values of type \<open>error\<close>, in the order printed; the other output is left out.
\<close>

type_synonym addr = int

datatype error = OutOfMemory | InvalidPointer | DoubleFree | AllocationTooLarge
  | ConfigurationError

section \<open>Variable-size allocator\<close>

text \<open>\<^verbatim>\<open>struct MemBlock { size_t size; int used; MemBlock* prev; MemBlock* next; }\<close>\<close>

record MemBlock =
  size_m :: "64 word"
  used :: "32 word"
  prev :: addr
  next_m :: addr

text \<open>\<^verbatim>\<open>sizeof(MemBlock)\<close> on an LP64 target, and \<^verbatim>\<open>#define POOL_SIZE 256\<close>.\<close>

definition sizeof_MemBlock :: "64 word" where
  "sizeof_MemBlock = 32"

definition POOL_SIZE :: int where
  "POOL_SIZE = 256"

record vs_state =
  memory_pool :: addr
  head :: addr
  mem :: "addr \<Rightarrow> MemBlock"

text \<open>Pointer plus size and pointer minus size, on 64 bits.\<close>

definition ptr_add :: "addr \<Rightarrow> 64 word \<Rightarrow> addr" where
  "ptr_add p n = (p + uint n) mod 2 ^ 64"

definition ptr_sub :: "addr \<Rightarrow> 64 word \<Rightarrow> addr" where
  "ptr_sub p n = (p - uint n) mod 2 ^ 64"

text \<open>Stores to one field of the header at an address.\<close>

definition set_size :: "addr \<Rightarrow> 64 word \<Rightarrow> (addr \<Rightarrow> MemBlock) \<Rightarrow> addr \<Rightarrow> MemBlock" where
  "set_size a v m = m(a := (m a)\<lparr>size_m := v\<rparr>)"

definition set_used :: "addr \<Rightarrow> 32 word \<Rightarrow> (addr \<Rightarrow> MemBlock) \<Rightarrow> addr \<Rightarrow> MemBlock" where
  "set_used a v m = m(a := (m a)\<lparr>used := v\<rparr>)"

definition set_prev :: "addr \<Rightarrow> addr \<Rightarrow> (addr \<Rightarrow> MemBlock) \<Rightarrow> addr \<Rightarrow> MemBlock" where
  "set_prev a v m = m(a := (m a)\<lparr>prev := v\<rparr>)"

definition set_next :: "addr \<Rightarrow> addr \<Rightarrow> (addr \<Rightarrow> MemBlock) \<Rightarrow> addr \<Rightarrow> MemBlock" where
  "set_next a v m = m(a := (m a)\<lparr>next_m := v\<rparr>)"

text \<open>\<^verbatim>\<open>vs_init_allocator\<close>: the pool becomes one free block.\<close>

definition vs_init_allocator :: "vs_state \<Rightarrow> vs_state" where
  "vs_init_allocator s =
    (let h = memory_pool s;
         m1 = set_size h (word_of_int POOL_SIZE) (mem s);
         m2 = set_used h 0 m1;
         m3 = set_prev h 0 m2;
         m4 = set_next h 0 m3
     in s\<lparr>head := h, mem := m4\<rparr>)"

text \<open>
  The search loop of \<^verbatim>\<open>vs_malloc\<close>. It follows \<^verbatim>\<open>next\<close> pointers until \<^verbatim>\<open>NULL\<close>, so on a
  cyclic store it does not return: the result is an option.
\<close>

partial_function (option) vs_scan ::
  "(addr \<Rightarrow> MemBlock) \<Rightarrow> 64 word \<Rightarrow> addr \<Rightarrow> addr \<Rightarrow> addr option" where
  "vs_scan m n cur best =
    (if cur = 0 then Some best
     else vs_scan m n (next_m (m cur))
       (if used (m cur) = 0 \<and>
           (best = 0 \<or> (size_m (m cur) < size_m (m best) \<and> size_m (m cur) \<ge> n))
        then cur else best))"

declare vs_scan.simps [code]

text \<open>The split of \<^verbatim>\<open>vs_malloc\<close>, store by store, each read through the current memory.\<close>

definition vs_split :: "addr \<Rightarrow> 64 word \<Rightarrow> (addr \<Rightarrow> MemBlock) \<Rightarrow> addr \<Rightarrow> MemBlock" where
  "vs_split best n m =
    (let nx = next_m (m best);
         m1 = set_next best (ptr_add (ptr_add best sizeof_MemBlock) n) m;
         m2 = set_used (next_m (m1 best)) 0 m1;
         m3 = set_size (next_m (m2 best)) (size_m (m2 best) - n - sizeof_MemBlock) m2;
         m4 = set_prev (next_m (m3 best)) best m3;
         m5 = set_next (next_m (m4 best)) nx m4
     in m5)"

definition vs_malloc :: "vs_state \<Rightarrow> 64 word \<Rightarrow> (addr \<times> error list \<times> vs_state) option" where
  "vs_malloc s n =
    (case vs_scan (mem s) n (head s) 0 of
       None \<Rightarrow> None
     | Some best \<Rightarrow>
        if best = 0 \<or> ptr_add (ptr_add best sizeof_MemBlock) n > memory_pool s + POOL_SIZE
        then Some (0, [OutOfMemory], s)
        else
          let m1 = (if size_m (mem s best) \<ge> n + sizeof_MemBlock
                    then vs_split best n (mem s) else mem s);
              m2 = set_used best 1 m1;
              m3 = set_size best n m2
          in Some (ptr_add best sizeof_MemBlock, [], s\<lparr>mem := m3\<rparr>))"

text \<open>\<^verbatim>\<open>vs_free\<close>: validation, then coalescing with the next and with the previous block.\<close>

definition merge_next :: "addr \<Rightarrow> (addr \<Rightarrow> MemBlock) \<Rightarrow> addr \<Rightarrow> MemBlock" where
  "merge_next block m =
    (if next_m (m block) \<noteq> 0 \<and> used (m (next_m (m block))) = 0
     then
       let m1 = set_size block
                  (size_m (m block) + (size_m (m (next_m (m block))) + sizeof_MemBlock)) m;
           m2 = set_next block (next_m (m1 (next_m (m1 block)))) m1
       in if next_m (m2 block) \<noteq> 0 then set_prev (next_m (m2 block)) block m2 else m2
     else m)"

definition merge_prev :: "addr \<Rightarrow> (addr \<Rightarrow> MemBlock) \<Rightarrow> addr \<Rightarrow> MemBlock" where
  "merge_prev block m =
    (if prev (m block) \<noteq> 0 \<and> used (m (prev (m block))) = 0
     then
       let m1 = set_size (prev (m block))
                  (size_m (m (prev (m block))) + (size_m (m block) + sizeof_MemBlock)) m;
           m2 = set_next (prev (m1 block)) (next_m (m1 block)) m1
       in if next_m (m2 block) \<noteq> 0
          then set_prev (next_m (m2 block)) (prev (m2 block)) m2 else m2
     else m)"

definition vs_free :: "vs_state \<Rightarrow> addr \<Rightarrow> error list \<times> vs_state" where
  "vs_free s ptr =
    (if ptr = 0 then ([InvalidPointer], s)
     else
       let block = ptr_sub ptr sizeof_MemBlock in
       if block = 0 \<or> used (mem s block) = 0 \<or> block < head s
          \<or> block > memory_pool s + POOL_SIZE
       then ([InvalidPointer], s)
       else ([], s\<lparr>mem := merge_prev block (merge_next block (set_used block 0 (mem s)))\<rparr>))"

text \<open>
  \<^verbatim>\<open>memcpy(dst, src, n)\<close> on the store: every address of the destination range reads what
  the corresponding source address read.
\<close>

definition memcpy :: "addr \<Rightarrow> addr \<Rightarrow> 64 word \<Rightarrow> (addr \<Rightarrow> MemBlock) \<Rightarrow> addr \<Rightarrow> MemBlock" where
  "memcpy dst src n m = (\<lambda>a. if dst \<le> a \<and> a < dst + uint n then m (src + (a - dst)) else m a)"

text \<open>
  The remainder block that both in-place paths of \<^verbatim>\<open>vs_realloc\<close> carve out. The two
  listings of the allocator agree on every function but for the last store of the path
  that grows in place, \<^verbatim>\<open>block->used = 1\<close>, which only the documented listing has; the
  embedding follows that listing.
\<close>

definition vs_carve :: "addr \<Rightarrow> 64 word \<Rightarrow> (addr \<Rightarrow> MemBlock) \<Rightarrow> addr \<Rightarrow> MemBlock" where
  "vs_carve block new_size m =
    (let r = ptr_add (ptr_add block sizeof_MemBlock) new_size;
         m1 = set_size r (size_m (m block) - new_size - sizeof_MemBlock) m;
         m2 = set_used r 0 m1;
         m3 = set_prev r block m2;
         m4 = set_next r (next_m (m3 block)) m3;
         m5 = (if next_m (m4 r) \<noteq> 0 then set_prev (next_m (m4 r)) r m4 else m4)
     in set_next block r m5)"

definition vs_realloc ::
  "vs_state \<Rightarrow> addr \<Rightarrow> 64 word \<Rightarrow> (addr \<times> error list \<times> vs_state) option" where
  "vs_realloc s ptr new_size =
    (if ptr = 0 then vs_malloc s new_size
     else if new_size = 0 then
       (case vs_free s ptr of (out, s') \<Rightarrow> Some (0, out, s'))
     else
       let block = ptr_sub ptr sizeof_MemBlock; m = mem s in
       if new_size < size_m (m block) then
         let m1 = (if size_m (m block) - new_size \<ge> sizeof_MemBlock
                   then vs_carve block new_size m else m)
         in Some (ptr, [], s\<lparr>mem := set_size block new_size m1\<rparr>)
       else if next_m (m block) \<noteq> 0 \<and> used (m (next_m (m block))) = 0 \<and>
               size_m (m block) + size_m (m (next_m (m block))) + sizeof_MemBlock \<ge> new_size
       then
         let excess = size_m (m (next_m (m block))) + sizeof_MemBlock;
             m1 = set_size block (size_m (m block) + excess) m;
             m2 = set_next block (next_m (m1 (next_m (m1 block)))) m1;
             m3 = (if next_m (m2 block) \<noteq> 0 then set_prev (next_m (m2 block)) block m2 else m2);
             m4 = vs_carve block new_size m3;
             m5 = set_size block new_size m4;
             m6 = set_used block 1 m5
         in Some (ptr, [], s\<lparr>mem := m6\<rparr>)
       else
         (case vs_malloc s new_size of
            None \<Rightarrow> None
          | Some (new_ptr, out, s1) \<Rightarrow>
              if new_ptr \<noteq> 0 then
                (case vs_free (s1\<lparr>mem := memcpy new_ptr ptr (size_m (mem s1 block)) (mem s1)\<rparr>) ptr
                 of (out', s2) \<Rightarrow> Some (new_ptr, out @ out', s2))
              else Some (new_ptr, out, s1)))"

text \<open>\<^verbatim>\<open>dump_memory\<close>: the blocks in list order, as (address, size, used).\<close>

partial_function (option) dump_from ::
  "(addr \<Rightarrow> MemBlock) \<Rightarrow> addr \<Rightarrow> (addr \<times> 64 word \<times> 32 word) list option" where
  "dump_from m cur =
    (if cur = 0 then Some []
     else Option.bind (dump_from m (next_m (m cur)))
            (\<lambda>r. Some ((cur, size_m (m cur), used (m cur)) # r)))"

declare dump_from.simps [code]

definition dump_memory :: "vs_state \<Rightarrow> (addr \<times> 64 word \<times> 32 word) list option" where
  "dump_memory s = dump_from (mem s) (head s)"

text \<open>
  Before the first call the pool is a zero-filled static array and \<^verbatim>\<open>head\<close> is \<^verbatim>\<open>NULL\<close>.
\<close>

definition vs_boot :: "addr \<Rightarrow> vs_state" where
  "vs_boot p = \<lparr>memory_pool = p, head = 0,
     mem = (\<lambda>_. \<lparr>size_m = 0, used = 0, prev = 0, next_m = 0\<rparr>)\<rparr>"

section \<open>Fixed-size allocator\<close>

text \<open>\<^verbatim>\<open>struct FreeBlock { int used; FreeBlock* next; }\<close>, 16 bytes on an LP64 target.\<close>

record FreeBlock =
  used_f :: "32 word"
  next_f :: addr

definition sizeof_FreeBlock :: "64 word" where
  "sizeof_FreeBlock = 16"

definition BLOCK_SIZE :: int where
  "BLOCK_SIZE = 32"

definition BLOCK_COUNT :: int where
  "BLOCK_COUNT = 8"

definition FS_POOL_SIZE :: int where
  "FS_POOL_SIZE = BLOCK_SIZE * BLOCK_COUNT"

record fs_state =
  fs_memory_pool :: addr
  free_list :: addr
  fs_mem :: "addr \<Rightarrow> FreeBlock"

definition fs_boot :: "addr \<Rightarrow> fs_state" where
  "fs_boot p = \<lparr>fs_memory_pool = p, free_list = 0,
     fs_mem = (\<lambda>_. \<lparr>used_f = 0, next_f = 0\<rparr>)\<rparr>"

text \<open>
  The linking loop of \<^verbatim>\<open>fs_init_allocator\<close>, for the values of \<^verbatim>\<open>i\<close> in the list: the
  state is the memory and \<^verbatim>\<open>curr\<close>.
\<close>

fun fs_link :: "addr \<Rightarrow> int list \<Rightarrow> (addr \<Rightarrow> FreeBlock) \<times> addr \<Rightarrow> (addr \<Rightarrow> FreeBlock) \<times> addr" where
  "fs_link p [] (m, cur) = (m, cur)"
| "fs_link p (i # is) (m, cur) =
    (let m1 = m(cur := (m cur)\<lparr>used_f := 0\<rparr>);
         m2 = m1(cur := (m1 cur)\<lparr>next_f := p + BLOCK_SIZE * (i + 1)\<rparr>)
     in fs_link p is (m2, next_f (m2 cur)))"

definition fs_init_allocator :: "fs_state \<Rightarrow> int \<times> error list \<times> fs_state" where
  "fs_init_allocator s =
    (let cur = fs_memory_pool s; s1 = s\<lparr>free_list := cur\<rparr> in
     if FS_POOL_SIZE < BLOCK_SIZE \<or> BLOCK_SIZE \<le> 0 \<or> BLOCK_COUNT < 0 \<or>
        BLOCK_SIZE mod 8 \<noteq> 0 \<or> word_of_int BLOCK_SIZE \<le> sizeof_FreeBlock
     then (1, [ConfigurationError], s1)
     else
       (case fs_link (fs_memory_pool s) [0 .. BLOCK_COUNT - 2] (fs_mem s1, cur) of
          (m, cur') \<Rightarrow>
            let m1 = m(cur' := (m cur')\<lparr>used_f := 0\<rparr>);
                m2 = m1(cur' := (m1 cur')\<lparr>next_f := 0\<rparr>)
            in (0, [], s1\<lparr>fs_mem := m2\<rparr>)))"

definition fs_malloc :: "fs_state \<Rightarrow> 64 word \<Rightarrow> addr \<times> error list \<times> fs_state" where
  "fs_malloc s n =
    (if free_list s = 0 then (0, [OutOfMemory], s)
     else if n > word_of_int BLOCK_SIZE then (0, [AllocationTooLarge], s)
     else
       let block = free_list s;
           s1 = s\<lparr>free_list := next_f (fs_mem s (free_list s))\<rparr>;
           m1 = (fs_mem s1)(block := (fs_mem s1 block)\<lparr>used_f := 1\<rparr>);
           m2 = m1(block := (m1 block)\<lparr>next_f := 0\<rparr>)
       in (block, [], s1\<lparr>fs_mem := m2\<rparr>))"

text \<open>
  In \<^verbatim>\<open>fs_free\<close> the remainder is taken only when \<^verbatim>\<open>ptr\<close> is not below the pool (the
  disjunction of the C code stops at the first true test), so it is the remainder of a
  non-negative difference.
\<close>

definition fs_free :: "fs_state \<Rightarrow> addr \<Rightarrow> error list \<times> fs_state" where
  "fs_free s ptr =
    (if ptr = 0 \<or> ptr < fs_memory_pool s \<or> ptr \<ge> fs_memory_pool s + FS_POOL_SIZE
        \<or> (ptr - fs_memory_pool s) mod BLOCK_SIZE \<noteq> 0
     then ([InvalidPointer], s)
     else if used_f (fs_mem s ptr) = 0 then ([DoubleFree], s)
     else
       let block = ptr;
           m1 = (fs_mem s)(block := (fs_mem s block)\<lparr>used_f := 0\<rparr>);
           m2 = m1(block := (m1 block)\<lparr>next_f := free_list s\<rparr>)
       in ([], s\<lparr>free_list := block, fs_mem := m2\<rparr>))"

text \<open>
  The file holds a second listing of the allocator, with blocks of 16 bytes. Its
  \<^verbatim>\<open>fs_malloc\<close> marks the block before it advances the head and does not store to the
  \<^verbatim>\<open>next\<close> field of the block.
\<close>

definition BLOCK_SIZE_2 :: int where
  "BLOCK_SIZE_2 = 16"

definition fs_malloc_2 :: "fs_state \<Rightarrow> 64 word \<Rightarrow> addr \<times> error list \<times> fs_state" where
  "fs_malloc_2 s n =
    (if free_list s = 0 then (0, [OutOfMemory], s)
     else if n > word_of_int BLOCK_SIZE_2 then (0, [AllocationTooLarge], s)
     else
       let block = free_list s;
           s1 = s\<lparr>fs_mem := (fs_mem s)(block := (fs_mem s block)\<lparr>used_f := 1\<rparr>)\<rparr>
       in (block, [], s1\<lparr>free_list := next_f (fs_mem s1 (free_list s1))\<rparr>))"

text \<open>The allocation loop of \<^verbatim>\<open>main\<close>: \<open>k\<close> requests of 8 bytes, the pointers dropped.\<close>

fun fs_fill :: "nat \<Rightarrow> fs_state \<Rightarrow> fs_state" where
  "fs_fill 0 s = s"
| "fs_fill (Suc k) s = fs_fill k (snd (snd (fs_malloc s 8)))"

section \<open>Call sequences and the block list\<close>

text \<open>
  The loops of \<^verbatim>\<open>main\<close>: allocate one block per requested size and keep the returned
  pointers (\<^verbatim>\<open>blocks[count++] = ptr\<close>), then free a list of pointers in order.
\<close>

fun vs_mallocs :: "vs_state \<Rightarrow> 64 word list \<Rightarrow> (addr list \<times> vs_state) option" where
  "vs_mallocs s [] = Some ([], s)"
| "vs_mallocs s (n # ns) =
    (case vs_malloc s n of
       None \<Rightarrow> None
     | Some (p, out, s1) \<Rightarrow>
        (case vs_mallocs s1 ns of
           None \<Rightarrow> None
         | Some (ps, s2) \<Rightarrow> Some (p # ps, s2)))"


text \<open>
  The invariants of the block list, for a list \<open>as\<close> of header addresses in list order.
  \<open>seg m pv as nx e\<close>: the headers at \<open>as\<close> are linked in both directions, the first
  has \<^verbatim>\<open>prev\<close> \<open>pv\<close>, the last has \<^verbatim>\<open>next\<close> \<open>nx\<close>, every block ends where the next header
  starts and the last one ends at \<open>e\<close>.
\<close>

fun seg :: "(addr \<Rightarrow> MemBlock) \<Rightarrow> addr \<Rightarrow> addr list \<Rightarrow> addr \<Rightarrow> addr \<Rightarrow> bool" where
  "seg m pv [] nx e = False"
| "seg m pv [a] nx e =
    (prev (m a) = pv \<and> next_m (m a) = nx \<and>
     a + uint sizeof_MemBlock + uint (size_m (m a)) = e)"
| "seg m pv (a # b # bs) nx e =
    (prev (m a) = pv \<and> next_m (m a) = b \<and>
     a + uint sizeof_MemBlock + uint (size_m (m a)) = b \<and> seg m a (b # bs) nx e)"

text \<open>
  The list as \<^verbatim>\<open>vs_init_allocator\<close> sets it up and as a split of its last block and the
  coalescing steps keep it: the array lies inside the address space at an address other
  than \<^verbatim>\<open>NULL\<close>, the list starts at the array and its last block ends \<^verbatim>\<open>sizeof(MemBlock)\<close>
  bytes after the array, because the initial block has size \<^verbatim>\<open>POOL_SIZE\<close>. A split by
  \<^verbatim>\<open>vs_malloc\<close> of a block that has a successor does not keep it: the \<^verbatim>\<open>prev\<close> of the
  successor is left as it was.
\<close>

definition vs_linked :: "vs_state \<Rightarrow> addr list \<Rightarrow> bool" where
  "vs_linked s as =
    (0 < memory_pool s \<and> memory_pool s + POOL_SIZE < 2 ^ 64 \<and>
     head s = memory_pool s \<and> hd as = memory_pool s \<and>
     seg (mem s) 0 as 0 (memory_pool s + POOL_SIZE + uint sizeof_MemBlock))"

text \<open>No two neighbours of the list are both free.\<close>

fun noadj :: "(addr \<Rightarrow> MemBlock) \<Rightarrow> addr list \<Rightarrow> bool" where
  "noadj m [] = True"
| "noadj m [a] = True"
| "noadj m (a # b # bs) = (\<not> (used (m a) = 0 \<and> used (m b) = 0) \<and> noadj m (b # bs))"


section \<open>Evaluation\<close>

lemmas stores = set_size_def set_used_def set_prev_def set_next_def

lemmas vs_consts = sizeof_MemBlock_def POOL_SIZE_def ptr_add_def ptr_sub_def

lemmas vs_defs = vs_boot_def vs_init_allocator_def vs_malloc_def vs_split_def vs_free_def
  merge_next_def merge_prev_def vs_realloc_def vs_carve_def dump_memory_def vs_linked_def

lemmas vs_eval = vs_defs stores vs_consts vs_scan.simps dump_from.simps Let_def

lemmas fs_defs = fs_boot_def fs_init_allocator_def fs_malloc_def fs_free_def
  BLOCK_SIZE_def BLOCK_COUNT_def FS_POOL_SIZE_def sizeof_FreeBlock_def

section \<open>Allocation: the block that is granted\<close>

text \<open>
  Claim C1 says that the block \<^verbatim>\<open>vs_malloc\<close> grants is a free block at least as large as
  the request, the smallest such one. The search takes the first free block as its
  candidate whatever its size, and a candidate that is too small is never replaced. In
  the run below the list holds a free block of 40 bytes before a free block of 88 bytes;
  a request for 60 bytes returns the payload of the 40-byte block, without a report,
  and writes 60 into its size field.
\<close>

theorem vs_malloc_grants_too_small_block:
  "do { (a, _, s1) \<leftarrow> vs_malloc (vs_init_allocator (vs_boot 4096)) 16;
        (b, _, s2) \<leftarrow> vs_malloc s1 40;
        (c, _, s3) \<leftarrow> vs_malloc s2 16;
        let (_, s4) = vs_free s3 b;
        (p, out, s5) \<leftarrow> vs_malloc s4 60;
        d4 \<leftarrow> dump_memory s4;
        d5 \<leftarrow> dump_memory s5;
        Some (b, p, out, d4, d5) } =
   Some (4176, 4176, [],
     [(4096, 16, 1), (4144, 40, 0), (4216, 16, 1), (4264, 88, 0)],
     [(4096, 16, 1), (4144, 60, 1), (4216, 16, 1), (4264, 88, 0)])"
  by (simp add: vs_eval)

section \<open>The extent of the block list\<close>

text \<open>
  Claim C2 says that the blocks partition the arena and that the last block ends at the
  arena end. \<^verbatim>\<open>vs_init_allocator\<close> stores \<^verbatim>\<open>POOL_SIZE\<close> in the size field of the only block,
  and that field counts payload bytes: the block ends \<^verbatim>\<open>sizeof(MemBlock)\<close> bytes after the
  arena, in every state the function returns.
\<close>

theorem vs_init_block_exceeds_arena:
  "let s' = vs_init_allocator s; h = head s' in
     h = memory_pool s \<and> next_m (mem s' h) = 0 \<and> size_m (mem s' h) = 256 \<and>
     h + uint sizeof_MemBlock + uint (size_m (mem s' h)) = memory_pool s + POOL_SIZE + 32"
  by (simp add: vs_eval)

text \<open>
  A block granted without a split has its size field overwritten with the request, so
  it no longer ends where the next header starts: here the block at 4144 ends at 4192
  and its successor starts at 4216.
\<close>

lemma vs_malloc_without_split_leaves_gap:
  "do { (ps, s) \<leftarrow> vs_mallocs (vs_init_allocator (vs_boot 4096)) [16, 40, 16];
        let (_, s1) = vs_free s (ps ! 1);
        (p, out, s2) \<leftarrow> vs_malloc s1 16;
        Some (p, out, mem s2 4144) } =
   Some (4176, [], \<lparr>size_m = 16, used = 1, prev = 4096, next_m = 4216\<rparr>)"
  by (simp add: vs_eval)

section \<open>Growing in place\<close>

text \<open>
  Claim C4 says that growing into a free neighbour splits off the excess, if any, and
  leaves the list well formed. The code carves the remainder without testing that the
  excess holds a header. Below the block of 16 bytes at 4096 is followed by a free block
  of 8 bytes, so 56 bytes are available; growing to 50 returns the same pointer and
  stores a remainder header at 4178, six bytes before the header of the next block at
  4184, with the size \<open>56 - 50 - 32\<close> wrapped around.
\<close>

theorem vs_realloc_grow_remainder_wraps:
  "do { (ps, s) \<leftarrow> vs_mallocs (vs_init_allocator (vs_boot 4096)) [16, 8, 16];
        let (_, s1) = vs_free s (ps ! 1);
        d1 \<leftarrow> dump_memory s1;
        (p, out, s2) \<leftarrow> vs_realloc s1 (ps ! 0) 50;
        Some (ps, d1, p, out, mem s2 4096, size_m (mem s2 4178)) } =
   Some ([4128, 4176, 4216],
     [(4096, 16, 1), (4144, 8, 0), (4184, 16, 1), (4232, 120, 0)],
     4128, [], \<lparr>size_m = 50, used = 1, prev = 0, next_m = 4178\<rparr>, 18446744073709551590)"
  by (simp add: vs_eval)

section \<open>Invalid pointers\<close>

text \<open>What both \<^verbatim>\<open>free\<close> functions do reject, with the state unchanged.\<close>

lemma fs_free_invalid_pointer:
  "ptr = 0 \<or> ptr < fs_memory_pool s \<or> ptr \<ge> fs_memory_pool s + FS_POOL_SIZE
     \<or> (ptr - fs_memory_pool s) mod BLOCK_SIZE \<noteq> 0
   \<Longrightarrow> fs_free s ptr = ([InvalidPointer], s)"
  by (simp add: fs_free_def)

lemma vs_free_invalid_pointer:
  "ptr = 0 \<or> ptr_sub ptr sizeof_MemBlock = 0
     \<or> used (mem s (ptr_sub ptr sizeof_MemBlock)) = 0
     \<or> ptr_sub ptr sizeof_MemBlock < head s
     \<or> ptr_sub ptr sizeof_MemBlock > memory_pool s + POOL_SIZE
   \<Longrightarrow> vs_free s ptr = ([InvalidPointer], s)"
  by (auto simp: vs_free_def Let_def)

text \<open>
  Claim C5 says that every pointer that is not a payload address handed out is rejected
  by both allocators, with the lists unchanged. \<^verbatim>\<open>vs_free\<close> has no test of its own for
  that: it reads the \<^verbatim>\<open>used\<close> field 24 bytes before the pointer. Below the caller holds
  a payload of 64 bytes at 4128 and has stored 32 bytes of its own data at offset 7;
  freeing the odd address 4167 inside that payload is accepted without a report and adds
  32 bytes to the size field of the free block at 4192.
\<close>

theorem vs_free_accepts_interior_pointer:
  "do { (a, _, s) \<leftarrow> vs_malloc (vs_init_allocator (vs_boot 4096)) 64;
        d \<leftarrow> dump_memory s;
        let s1 = s\<lparr>mem := (mem s)(a + 7 := \<lparr>size_m = 0, used = 1, prev = 4192, next_m = 0\<rparr>)\<rparr>;
        let (out, s2) = vs_free s1 (a + 39);
        d2 \<leftarrow> dump_memory s2;
        Some (a, d, out, d2) } =
   Some (4128, [(4096, 64, 1), (4192, 160, 0)], [], [(4096, 64, 1), (4192, 192, 0)])"
  by (simp add: vs_eval)

text \<open>
  The same happens without any store of the caller when the allocator is initialised
  again: the header of an earlier block still reads as used.
\<close>

lemma vs_free_accepts_pointer_of_earlier_arena:
  "do { (ps, s) \<leftarrow> vs_mallocs (vs_init_allocator (vs_boot 4096)) [16, 16];
        let s1 = vs_init_allocator s;
        d1 \<leftarrow> dump_memory s1;
        let (out, s2) = vs_free s1 (ps ! 1);
        d2 \<leftarrow> dump_memory s2;
        Some (ps, d1, out, d2) } =
   Some ([4128, 4176], [(4096, 256, 0)], [], [(4096, 496, 0)])"
  by (simp add: vs_eval)

section \<open>Fixed-size allocation\<close>

text \<open>
  Claim C6, as the code has it. \<^verbatim>\<open>fs_malloc\<close> tests the free list first: with an empty
  list it reports \<open>OutOfMemory\<close> for every size, and it reports \<open>AllocationTooLarge\<close>
  exactly when the list is not empty and the size exceeds the block size. Both failures
  return \<^verbatim>\<open>NULL\<close> and leave the state as it was. Otherwise the head of the list is
  returned and marked used, the list continues with its former successor and no other
  block changes; the \<^verbatim>\<open>next\<close> field of the block is cleared in the first listing and left
  as it was in the second.
\<close>

theorem fs_malloc_outcomes:
  "(free_list s = 0 \<longrightarrow>
      fs_malloc s n = (0, [OutOfMemory], s) \<and> fs_malloc_2 s n = (0, [OutOfMemory], s)) \<and>
   (free_list s \<noteq> 0 \<and> n > word_of_int BLOCK_SIZE \<longrightarrow>
      fs_malloc s n = (0, [AllocationTooLarge], s)) \<and>
   (free_list s \<noteq> 0 \<and> n > word_of_int BLOCK_SIZE_2 \<longrightarrow>
      fs_malloc_2 s n = (0, [AllocationTooLarge], s)) \<and>
   (free_list s \<noteq> 0 \<and> n \<le> word_of_int BLOCK_SIZE \<longrightarrow>
      (\<exists>s'. fs_malloc s n = (free_list s, [], s') \<and>
         free_list s' = next_f (fs_mem s (free_list s)) \<and>
         fs_mem s' (free_list s) = \<lparr>used_f = 1, next_f = 0\<rparr> \<and>
         (\<forall>a. a \<noteq> free_list s \<longrightarrow> fs_mem s' a = fs_mem s a))) \<and>
   (free_list s \<noteq> 0 \<and> n \<le> word_of_int BLOCK_SIZE_2 \<longrightarrow>
      (\<exists>s'. fs_malloc_2 s n = (free_list s, [], s') \<and>
         free_list s' = next_f (fs_mem s (free_list s)) \<and>
         fs_mem s' (free_list s) = (fs_mem s (free_list s))\<lparr>used_f := 1\<rparr> \<and>
         (\<forall>a. a \<noteq> free_list s \<longrightarrow> fs_mem s' a = fs_mem s a)))"
  by (auto simp: fs_malloc_def fs_malloc_2_def Let_def)

text \<open>
  The cases on the pool of the repository: after \<^verbatim>\<open>fs_init_allocator\<close> the head is the
  first slot, after eight allocations the list is empty.
\<close>

lemma fs_init_state:
  "free_list (snd (snd (fs_init_allocator (fs_boot 4096)))) = 4096"
  "next_f (fs_mem (snd (snd (fs_init_allocator (fs_boot 4096)))) 4096) = 4128"
  by (simp_all add: fs_defs Let_def upto.simps)

lemma fs_fill_state:
  "free_list (fs_fill 8 (snd (snd (fs_init_allocator (fs_boot 4096))))) = 0"
  by code_simp

theorem fs_malloc_outcomes_witness:
  "fs_malloc (fs_fill 8 (snd (snd (fs_init_allocator (fs_boot 4096))))) 8
     = (0, [OutOfMemory], fs_fill 8 (snd (snd (fs_init_allocator (fs_boot 4096))))) \<and>
   fs_malloc (snd (snd (fs_init_allocator (fs_boot 4096)))) 33
     = (0, [AllocationTooLarge], snd (snd (fs_init_allocator (fs_boot 4096)))) \<and>
   fs_malloc_2 (snd (snd (fs_init_allocator (fs_boot 4096)))) 17
     = (0, [AllocationTooLarge], snd (snd (fs_init_allocator (fs_boot 4096)))) \<and>
   (\<exists>s'. fs_malloc (snd (snd (fs_init_allocator (fs_boot 4096)))) 32 = (4096, [], s') \<and>
      free_list s' = 4128 \<and> fs_mem s' 4096 = \<lparr>used_f = 1, next_f = 0\<rparr>) \<and>
   (\<exists>s'. fs_malloc_2 (snd (snd (fs_init_allocator (fs_boot 4096)))) 16 = (4096, [], s') \<and>
      free_list s' = 4128 \<and> fs_mem s' 4096 = \<lparr>used_f = 1, next_f = 4128\<rparr>)"
proof -
  let ?s = "snd (snd (fs_init_allocator (fs_boot 4096)))"
  note h = fs_init_state
  have m: "fs_mem ?s 4096 = \<lparr>used_f = 0, next_f = 4128\<rparr>"
    by (simp add: fs_defs Let_def upto.simps)
  have "fs_malloc (fs_fill 8 ?s) 8 = (0, [OutOfMemory], fs_fill 8 ?s)"
    using fs_malloc_outcomes [of "fs_fill 8 ?s" 8] fs_fill_state by simp
  moreover have "fs_malloc ?s 33 = (0, [AllocationTooLarge], ?s)"
    using fs_malloc_outcomes [of ?s 33] h by (simp add: BLOCK_SIZE_def)
  moreover have "fs_malloc_2 ?s 17 = (0, [AllocationTooLarge], ?s)"
    using fs_malloc_outcomes [of ?s 17] h by (simp add: BLOCK_SIZE_2_def)
  moreover have "\<exists>s'. fs_malloc ?s 32 = (4096, [], s') \<and>
      free_list s' = 4128 \<and> fs_mem s' 4096 = \<lparr>used_f = 1, next_f = 0\<rparr>"
    using fs_malloc_outcomes [of ?s 32] h by (auto simp: BLOCK_SIZE_def)
  moreover have "\<exists>s'. fs_malloc_2 ?s 16 = (4096, [], s') \<and>
      free_list s' = 4128 \<and> fs_mem s' 4096 = \<lparr>used_f = 1, next_f = 4128\<rparr>"
    using fs_malloc_outcomes [of ?s 16] h m by (auto simp: BLOCK_SIZE_2_def)
  ultimately show ?thesis by blast
qed

text \<open>
  The claim as it was stated fails where both conditions hold: after eight allocations
  the list is empty, a request of 33 bytes exceeds \<^verbatim>\<open>BLOCK_SIZE\<close> and the report is
  \<open>OutOfMemory\<close>.
\<close>

theorem fs_malloc_too_large_on_empty_list:
  "\<not> ((fst (snd (fs_malloc (fs_fill 8 (snd (snd (fs_init_allocator (fs_boot 4096))))) 33))
          = [AllocationTooLarge])
       = ((33 :: 64 word) > word_of_int BLOCK_SIZE))"
  using fs_fill_state by (simp add: fs_malloc_def BLOCK_SIZE_def)

section \<open>Resizing when nothing fits\<close>

lemma vs_malloc_failure_keeps_state:
  "vs_malloc s n = Some (p, out, s1) \<Longrightarrow> out \<noteq> [] \<Longrightarrow> p = 0 \<and> out = [OutOfMemory] \<and> s1 = s"
  by (auto simp: vs_malloc_def Let_def split: option.splits if_splits)

text \<open>
  Claim C8. When \<^verbatim>\<open>vs_realloc\<close> reaches its fallback (the pointer and the new size are not
  zero, the block is not larger than the new size and cannot grow into its successor) and
  the allocation of the new block reports \<open>OutOfMemory\<close>, the call returns \<^verbatim>\<open>NULL\<close> and the
  state it returns is the state it was given: the header of the old block and every
  byte of its payload are as before, and the block has not been released.
\<close>

theorem vs_realloc_fallback_failure:
  assumes "ptr \<noteq> 0" and "new_size \<noteq> 0"
    and "\<not> new_size < size_m (mem s (ptr_sub ptr sizeof_MemBlock))"
    and "\<not> (next_m (mem s (ptr_sub ptr sizeof_MemBlock)) \<noteq> 0 \<and>
            used (mem s (next_m (mem s (ptr_sub ptr sizeof_MemBlock)))) = 0 \<and>
            size_m (mem s (ptr_sub ptr sizeof_MemBlock))
              + size_m (mem s (next_m (mem s (ptr_sub ptr sizeof_MemBlock)))) + sizeof_MemBlock
              \<ge> new_size)"
    and "vs_malloc s new_size = Some (p, [OutOfMemory], s1)"
  shows "vs_realloc s ptr new_size = Some (0, [OutOfMemory], s)"
proof -
  from assms(5) have "p = 0 \<and> s1 = s"
    using vs_malloc_failure_keeps_state by blast
  with assms show ?thesis
    by (simp add: vs_realloc_def Let_def)
qed

text \<open>Two blocks of 16 bytes, then the first one is to grow to 300 bytes.\<close>

theorem vs_realloc_fallback_failure_witness:
  "vs_realloc (snd (the (vs_mallocs (vs_init_allocator (vs_boot 4096)) [16, 16]))) 4128 300
     = Some (0, [OutOfMemory], snd (the (vs_mallocs (vs_init_allocator (vs_boot 4096)) [16, 16])))
   \<and> dump_memory (snd (the (vs_mallocs (vs_init_allocator (vs_boot 4096)) [16, 16])))
     = Some [(4096, 16, 1), (4144, 16, 1), (4192, 160, 0)]"
proof -
  let ?s = "snd (the (vs_mallocs (vs_init_allocator (vs_boot 4096)) [16, 16]))"
  have m: "vs_malloc ?s 300 = Some (0, [OutOfMemory], ?s)"
    by (simp add: vs_eval)
  have "vs_realloc ?s 4128 300 = Some (0, [OutOfMemory], ?s)"
    by (rule vs_realloc_fallback_failure [OF _ _ _ _ m]) (simp_all add: vs_eval)
  moreover have "dump_memory ?s = Some [(4096, 16, 1), (4144, 16, 1), (4192, 160, 0)]"
    by (simp add: vs_eval)
  ultimately show ?thesis by simp
qed

section \<open>The upper bound of the pointer test\<close>

text \<open>
  Claim C9. For a pointer that passes the other tests of \<^verbatim>\<open>vs_free\<close> (it is not \<^verbatim>\<open>NULL\<close>,
  the header address derived from it is not \<^verbatim>\<open>NULL\<close>, reads as used and is not below
  \<^verbatim>\<open>head\<close>), the call reports \<open>InvalidPointer\<close> exactly when the header address is strictly
  greater than the end of the pool. A header address equal to the end of the pool is
  therefore accepted.
\<close>

theorem vs_free_bounds_strict:
  assumes "ptr \<noteq> 0" and "ptr_sub ptr sizeof_MemBlock \<noteq> 0"
    and "used (mem s (ptr_sub ptr sizeof_MemBlock)) \<noteq> 0"
    and "head s \<le> ptr_sub ptr sizeof_MemBlock"
  shows "(fst (vs_free s ptr) = [InvalidPointer])
       = (ptr_sub ptr sizeof_MemBlock > memory_pool s + POOL_SIZE)"
  using assms by (simp add: vs_free_def Let_def)

text \<open>
  The pool at 4096 ends at 4352. With a word that reads as used at that address, the
  pointer 4384 is accepted.
\<close>

theorem vs_free_bounds_strict_witness:
  "fst (vs_free ((vs_init_allocator (vs_boot 4096))
          \<lparr>mem := (mem (vs_init_allocator (vs_boot 4096)))
             (4352 := \<lparr>size_m = 0, used = 1, prev = 0, next_m = 0\<rparr>)\<rparr>) 4384)
   \<noteq> [InvalidPointer]"
  using vs_free_bounds_strict [of 4384
      "(vs_init_allocator (vs_boot 4096))
          \<lparr>mem := (mem (vs_init_allocator (vs_boot 4096)))
             (4352 := \<lparr>size_m = 0, used = 1, prev = 0, next_m = 0\<rparr>)\<rparr>"]
  by (simp add: vs_boot_def vs_init_allocator_def stores vs_consts Let_def)

section \<open>Requests of size zero\<close>

text \<open>
  Claim C10, as the code has it. On a pool that has just been initialised (at an
  address other than \<^verbatim>\<open>NULL\<close>, its first header inside the address space)
  \<^verbatim>\<open>vs_malloc(0)\<close> returns the address right after the first header and leaves a used
  block of size 0 followed by a free block of 224 bytes. In any state in which the search
  returns, the request is refused with \<open>OutOfMemory\<close> exactly when the search found no
  free block or the header of the block it chose starts less than \<^verbatim>\<open>sizeof(MemBlock)\<close>
  bytes before the end of the pool.
\<close>

theorem vs_malloc_zero:
  "(0 < memory_pool s \<and> memory_pool s + 32 < 2 ^ 64 \<longrightarrow>
      (\<exists>s'. vs_malloc (vs_init_allocator s) 0 = Some (memory_pool s + 32, [], s') \<and>
         dump_memory s' = Some [(memory_pool s, 0, 1), (memory_pool s + 32, 224, 0)])) \<and>
   (vs_scan (mem t) 0 (head t) 0 = Some best \<longrightarrow>
      (\<exists>p out t'. vs_malloc t 0 = Some (p, out, t') \<and>
         (out = [OutOfMemory])
           = (best = 0 \<or> memory_pool t + POOL_SIZE < ptr_add best sizeof_MemBlock)))"
proof (intro conjI impI)
  assume "0 < memory_pool s \<and> memory_pool s + 32 < 2 ^ 64"
  then show "\<exists>s'. vs_malloc (vs_init_allocator s) 0 = Some (memory_pool s + 32, [], s') \<and>
      dump_memory s' = Some [(memory_pool s, 0, 1), (memory_pool s + 32, 224, 0)]"
    by (simp add: vs_eval)
next
  assume "vs_scan (mem t) 0 (head t) 0 = Some best"
  then show "\<exists>p out t'. vs_malloc t 0 = Some (p, out, t') \<and>
      (out = [OutOfMemory])
        = (best = 0 \<or> memory_pool t + POOL_SIZE < ptr_add best sizeof_MemBlock)"
    by (simp add: vs_malloc_def ptr_add_def Let_def)
qed

text \<open>
  A fresh pool at 4096, and the pool after five blocks of 16 bytes, where the search
  chooses the free block at 4336.
\<close>

theorem vs_malloc_zero_witness:
  "(\<exists>s'. vs_malloc (vs_init_allocator (vs_boot 4096)) 0 = Some (4128, [], s') \<and>
      dump_memory s' = Some [(4096, 0, 1), (4128, 224, 0)]) \<and>
   (\<exists>p t'. vs_malloc (snd (the (vs_mallocs (vs_init_allocator (vs_boot 4096))
        [16, 16, 16, 16, 16]))) 0 = Some (p, [OutOfMemory], t'))"
proof -
  let ?t = "snd (the (vs_mallocs (vs_init_allocator (vs_boot 4096)) [16, 16, 16, 16, 16]))"
  have sc: "vs_scan (mem ?t) 0 (head ?t) 0 = Some 4336" by (simp add: vs_eval)
  have pl: "memory_pool ?t = 4096" by (simp add: vs_eval)
  from vs_malloc_zero [of "vs_boot 4096" ?t 4336] sc pl show ?thesis
    by (auto simp: vs_boot_def vs_consts)
qed

text \<open>
  The second half of the claim, that a request of size zero is never refused while a
  free block exists, does not hold: after five blocks of 16 bytes the list ends with a
  free block whose header is 16 bytes before the end of the pool, and the request is
  refused by the test against the end of the pool.
\<close>

theorem vs_malloc_zero_refused_with_free_block:
  "do { (ps, s) \<leftarrow> vs_mallocs (vs_init_allocator (vs_boot 4096)) [16, 16, 16, 16, 16];
        d \<leftarrow> dump_memory s;
        (p, out, s1) \<leftarrow> vs_malloc s 0;
        Some (d, p, out) } =
   Some ([(4096, 16, 1), (4144, 16, 1), (4192, 16, 1), (4240, 16, 1), (4288, 16, 1),
          (4336, 16, 0)], 0, [OutOfMemory])"
  by (simp add: vs_eval)

section \<open>Neighbouring free blocks\<close>

text \<open>
  Claim C7 says that after every operation no two neighbours of the list are both free,
  because \<^verbatim>\<open>vs_free\<close> merges the released block with the free block after it and then
  with the free block before it. \<^verbatim>\<open>vs_free\<close> finds the block before it through the
  \<^verbatim>\<open>prev\<close> link, and the split in \<^verbatim>\<open>vs_malloc\<close> does not store the new block into the
  \<^verbatim>\<open>prev\<close> field of the block after it (the split in \<^verbatim>\<open>vs_realloc\<close> does). In the run below
  only \<^verbatim>\<open>vs_malloc\<close> and \<^verbatim>\<open>vs_free\<close> are called. The free block at 4144 is split, the
  remainder at 4184 is free, and the block at 4216 keeps 4144 as its \<^verbatim>\<open>prev\<close>. When 4216 is
  released nothing is reported and it is merged with the block after it only: the
  neighbours 4184 and 4216 are both free when \<^verbatim>\<open>vs_free\<close> returns.
\<close>

theorem vs_free_misses_free_predecessor:
  "do { (ps, s) \<leftarrow> vs_mallocs (vs_init_allocator (vs_boot 4096)) [16, 40, 16];
        let (_, s1) = vs_free s (ps ! 1);
        (d, _, s2) \<leftarrow> vs_malloc s1 8;
        d2 \<leftarrow> dump_memory s2;
        let (out, s3) = vs_free s2 (ps ! 2);
        d3 \<leftarrow> dump_memory s3;
        Some (ps, d, d2, prev (mem s2 4216), out, d3,
              noadj (mem s3) [4096, 4144, 4184, 4216]) } =
   Some ([4128, 4176, 4248], 4176,
     [(4096, 16, 1), (4144, 8, 1), (4184, 0, 0), (4216, 16, 1), (4264, 88, 0)],
     4144, [], [(4096, 16, 1), (4144, 8, 1), (4184, 0, 0), (4216, 136, 0)], False)"
  by (simp add: vs_eval)

text \<open>
  \<^verbatim>\<open>vs_realloc\<close> does not merge at all: shrinking a block in place carves a free
  remainder and does not look at the block after it. Below the list is well linked after
  the call, and the blocks at 4178 and 4228 are both free.
\<close>

lemma vs_realloc_shrink_leaves_adjacent_free:
  "do { (a, _, s) \<leftarrow> vs_malloc (vs_init_allocator (vs_boot 4096)) 100;
        (p, out, s1) \<leftarrow> vs_realloc s a 50;
        d \<leftarrow> dump_memory s1;
        Some (p, out, d, vs_linked s1 [4096, 4178, 4228], noadj (mem s1) [4096, 4178, 4228]) } =
   Some (4128, [], [(4096, 50, 1), (4178, 18, 0), (4228, 124, 0)], True, False)"
  by (simp add: vs_eval)

section \<open>The block list under allocation and release\<close>



lemma seg_step_le:
  "a + uint sizeof_MemBlock + uint (sz :: 64 word) = b \<Longrightarrow> a + 32 \<le> b"
proof -
  assume "a + uint sizeof_MemBlock + uint sz = b"
  moreover have "uint sizeof_MemBlock = 32" by (simp add: sizeof_MemBlock_def)
  moreover have "0 \<le> uint sz" by simp
  ultimately show ?thesis by linarith
qed

lemma seg_bounds:
  "seg m pv as nx e \<Longrightarrow> a \<in> set as \<Longrightarrow> hd as \<le> a \<and> a + 32 \<le> e"
proof (induction m pv as nx e arbitrary: a rule: seg.induct)
  case (1 m pv nx e)
  then show ?case by simp
next
  case (2 m pv a' nx e)
  then have "a = a'" and "a' + uint sizeof_MemBlock + uint (size_m (m a')) = e" by simp_all
  with seg_step_le show ?case by fastforce
next
  case (3 m pv a' b bs nx e)
  from 3(2) have s: "seg m a' (b # bs) nx e"
    and ab: "a' + uint sizeof_MemBlock + uint (size_m (m a')) = b"
    by simp_all
  from ab have le: "a' + 32 \<le> b" by (rule seg_step_le)
  have "b \<in> set (b # bs)" by simp
  from 3(1) [OF s this] have hb: "b + 32 \<le> e" by simp
  show ?case
  proof (cases "a = a'")
    case True
    with le hb show ?thesis by simp
  next
    case False
    with 3(3) have "a \<in> set (b # bs)" by simp
    from 3(1) [OF s this] le show ?thesis by simp
  qed
qed




















lemma vs_linked_bounds:
  assumes "vs_linked s as" and "a \<in> set as"
  shows "memory_pool s \<le> a" and "a \<le> memory_pool s + 256" and "0 < a" and "a < 2 ^ 64"
proof -
  from assms(1) have pos: "0 < memory_pool s" and top: "memory_pool s + POOL_SIZE < 2 ^ 64"
    and hd: "hd as = memory_pool s"
    and sg: "seg (mem s) 0 as 0 (memory_pool s + POOL_SIZE + uint sizeof_MemBlock)"
    by (simp_all add: vs_linked_def)
  from seg_bounds [OF sg assms(2)] hd
  show 1: "memory_pool s \<le> a" and 2: "a \<le> memory_pool s + 256"
    by (simp_all add: sizeof_MemBlock_def POOL_SIZE_def)
  from 1 pos show "0 < a" by simp
  from 2 top show "a < 2 ^ 64" by (simp add: POOL_SIZE_def)
qed






lemma vs_scan_tail:
  assumes "seg m pv (us @ [f]) 0 e" and "0 \<notin> set (us @ [f])"
    and "\<forall>a \<in> set us. used (m a) \<noteq> 0" and "used (m f) = 0"
  shows "vs_scan m n (hd (us @ [f])) 0 = Some f"
  using assms
proof (induction us arbitrary: pv)
  case Nil
  then have "f \<noteq> 0" "next_m (m f) = 0" by simp_all
  with Nil(4) show ?case
    by (simp add: vs_scan.simps [of m n f] vs_scan.simps [of m n 0])
next
  case (Cons u us)
  from Cons.prems(1) have nu: "next_m (m u) = hd (us @ [f])" and tl: "seg m u (us @ [f]) 0 e"
    by (cases us; simp)+
  from Cons.prems(2,3) have "u \<noteq> 0" "used (m u) \<noteq> 0" by auto
  then have "vs_scan m n (hd ((u # us) @ [f])) 0 = vs_scan m n (hd (us @ [f])) 0"
    using nu by (simp add: vs_scan.simps [of m n u])
  also have "\<dots> = Some f"
    by (rule Cons.IH [OF tl]) (use Cons.prems in auto)
  finally show ?case .
qed











lemma vs_malloc_tail_returns:
  assumes L: "vs_linked s (us @ [f])" and U: "\<forall>a \<in> set us. used (mem s a) \<noteq> 0"
    and F: "used (mem s f) = 0"
  shows "\<exists>r. vs_malloc s n = Some r"
proof -
  from L have hd: "head s = memory_pool s" and hda: "hd (us @ [f]) = memory_pool s"
    and sg: "seg (mem s) 0 (us @ [f]) 0 (memory_pool s + POOL_SIZE + uint sizeof_MemBlock)"
    by (simp_all add: vs_linked_def)
  from vs_linked_bounds(3) [OF L] have nz: "0 \<notin> set (us @ [f])" by force
  from vs_scan_tail [OF sg nz U F, of n] hd hda
  have "vs_scan (mem s) n (head s) 0 = Some f" by simp
  then show ?thesis by (simp add: vs_malloc_def Let_def)
qed

section \<open>Releasing everything\<close>




end
